theory Spec2Isabelle
  imports Main "HOL-Library.Word"
begin

section \<open>The Spotify OAuth2 authenticator (package auth)\<close>

text \<open>
  A shallow embedding of \<^verbatim>\<open>internal/auth/authenticator.go\<close> and of the options file of
  the same package. The Authenticator is a pointer to a struct that holds a pointer to
  an \<^verbatim>\<open>oauth2.Config\<close> and a pointer to an \<^verbatim>\<open>http.Client\<close>; every method has a
  pointer receiver, so a method that writes a field is modelled as returning the updated
  Authenticator, and a method that writes none returns only its result.

  The package \<^verbatim>\<open>golang.org/x/oauth2\<close>, the HTTP transport and the process environment
  are not part of the repository. They are parameters of the model: the four methods of
  \<^verbatim>\<open>oauth2.Config\<close> that the package calls are the fields of the record \<open>oauth2\<close>, the
  environment is a partial map, and the token endpoint lives in a world state \<open>'w\<close> that
  the exchange reads and updates.
\<close>

subsection \<open>Constants and errors\<close>

definition EndpointAuthURL :: string where
  "EndpointAuthURL = ''https://accounts.spotify.com/authorize''"

definition EndpointTokenURL :: string where
  "EndpointTokenURL = ''https://accounts.spotify.com/api/token''"

text \<open>
  Go error values. The five sentinels are the package's \<^verbatim>\<open>errors.New\<close> values;
  \<open>Foreign msg\<close> is an error produced outside the package (by the OAuth2 library or the
  transport), known by its message; \<open>Wrapped msg e\<close> is what \<^verbatim>\<open>fmt.Errorf\<close> returns for a
  format with one \<^verbatim>\<open>%w\<close> verb: an error with message \<open>msg\<close> whose \<^verbatim>\<open>Unwrap\<close> gives \<open>e\<close>.
\<close>

datatype error =
    ErrAuthFailed
  | ErrNoAccessCode
  | ErrStateMismatch
  | ErrMissingClientID
  | ErrMissingClientSec
  | Foreign string
  | Wrapped string error

fun Error :: "error \<Rightarrow> string" where
  "Error ErrAuthFailed = ''spotify: authentication failed''"
| "Error ErrNoAccessCode = ''spotify: no access code received''"
| "Error ErrStateMismatch = ''spotify: state verification failed''"
| "Error ErrMissingClientID = ''spotify: client ID is required but not provided''"
| "Error ErrMissingClientSec = ''spotify: client secret is required but not provided''"
| "Error (Foreign msg) = msg"
| "Error (Wrapped msg e) = msg"

fun Unwrap :: "error \<Rightarrow> error option" where
  "Unwrap (Wrapped msg e) = Some e"
| "Unwrap e = None"

text \<open>\<^verbatim>\<open>errors.Is\<close>: the target is the error itself or is found along its \<^verbatim>\<open>Unwrap\<close> chain.\<close>

fun errors_Is :: "error \<Rightarrow> error \<Rightarrow> bool" where
  "errors_Is (Wrapped msg e) target = (Wrapped msg e = target \<or> errors_Is e target)"
| "errors_Is e target = (e = target)"

text \<open>\<^verbatim>\<open>fmt.Errorf("%w: %s", e, s)\<close>, the call of line 103.\<close>

definition Errorf_w_colon_s :: "error \<Rightarrow> string \<Rightarrow> error" where
  "Errorf_w_colon_s e s = Wrapped (Error e @ '': '' @ s) e"

text \<open>\<^verbatim>\<open>fmt.Errorf("spotify: token exchange failed: %w", e)\<close>, the call of line 124.\<close>

definition Errorf_exchange_failed :: "error \<Rightarrow> error" where
  "Errorf_exchange_failed e = Wrapped (''spotify: token exchange failed: '' @ Error e) e"

subsection \<open>Data\<close>

type_synonym Duration = "64 word"

text \<open>
  \<^verbatim>\<open>http.Client\<close>. The transport, redirect policy and cookie jar are interface values,
  modelled as handles; \<open>None\<close> is the nil interface.
\<close>

record http_Client =
  Transport :: "nat option"
  CheckRedirect :: "nat option"
  Jar :: "nat option"
  Timeout :: Duration

text \<open>\<^verbatim>\<open>http.DefaultClient\<close> is \<^verbatim>\<open>&Client{}\<close>.\<close>

definition http_DefaultClient :: http_Client where
  "http_DefaultClient = \<lparr>Transport = None, CheckRedirect = None, Jar = None, Timeout = 0\<rparr>"

text \<open>\<^verbatim>\<open>oauth2.Config\<close>, with the two endpoint URLs of its \<^verbatim>\<open>Endpoint\<close> field inlined.\<close>

record oauth2_Config =
  ClientID :: string
  ClientSecret :: string
  Endpoint_AuthURL :: string
  Endpoint_TokenURL :: string
  RedirectURL :: string
  Scopes :: "string list"

record oauth2_Token =
  AccessToken :: string
  TokenType :: string
  RefreshToken :: string
  ExpiresIn :: int

text \<open>The field \<open>client\<close> is a \<^verbatim>\<open>*http.Client\<close>: \<open>None\<close> is the nil pointer.\<close>

record Authenticator =
  config :: oauth2_Config
  client :: "http_Client option"

text \<open>
  The callback request. \<open>URL_Query\<close> is what \<^verbatim>\<open>r.URL.Query()\<close> parses: the pairs of the
  query string, decoded, in the order they appear.
\<close>

record http_Request =
  URL_Query :: "(string \<times> string) list"

text \<open>\<^verbatim>\<open>url.Values.Get\<close>: the first value stored under the key, or the empty string.\<close>

definition values_Get :: "(string \<times> string) list \<Rightarrow> string \<Rightarrow> string" where
  "values_Get vals key = (case map_of vals key of None \<Rightarrow> [] | Some v \<Rightarrow> v)"

text \<open>\<^verbatim>\<open>os.Getenv\<close>: the value of the variable, or the empty string when it is unset.\<close>

definition os_Getenv :: "(string \<rightharpoonup> string) \<Rightarrow> string \<Rightarrow> string" where
  "os_Getenv env key = (case env key of None \<Rightarrow> [] | Some v \<Rightarrow> v)"

subsection \<open>The OAuth2 library, as a parameter\<close>

datatype AuthCodeOption = AccessTypeOnline | AccessTypeOffline | ApprovalForce

text \<open>
  \<^verbatim>\<open>context.WithValue(ctx, oauth2.HTTPClient, c)\<close>: the caller's context together with the
  client stored under the library's key.
\<close>

definition context_WithValue_HTTPClient ::
  "'ctx \<Rightarrow> http_Client option \<Rightarrow> 'ctx \<times> http_Client option" where
  "context_WithValue_HTTPClient ctx c = (ctx, c)"

text \<open>
  The methods of \<^verbatim>\<open>oauth2.Config\<close> that the package calls. Only the exchange talks to
  the token endpoint, so only it threads the world state.
\<close>

record ('ctx, 'w, 'hc, 'ts) oauth2 =
  Config_AuthCodeURL :: "oauth2_Config \<Rightarrow> string \<Rightarrow> AuthCodeOption list \<Rightarrow> string"
  Config_Exchange :: "'ctx \<times> http_Client option \<Rightarrow> oauth2_Config \<Rightarrow> string \<Rightarrow> 'w
                        \<Rightarrow> (error + oauth2_Token) \<times> 'w"
  Config_Client :: "'ctx \<times> http_Client option \<Rightarrow> oauth2_Config \<Rightarrow> oauth2_Token option \<Rightarrow> 'hc"
  Config_TokenSource :: "'ctx \<times> http_Client option \<Rightarrow> oauth2_Config \<Rightarrow> oauth2_Token option \<Rightarrow> 'ts"

subsection \<open>Options\<close>

text \<open>
  An \<^verbatim>\<open>Option\<close> is a \<^verbatim>\<open>func(*Authenticator)\<close>. The fields of the Authenticator are
  unexported, so the options that can write them are the closures returned by the six
  constructors of the package; \<open>apply_Option\<close> is the body of each closure.
\<close>

datatype Option =
    WithClientID string
  | WithClientSecret string
  | WithRedirectURL string
  | WithScopes "string list"
  | WithHTTPClient "http_Client option"
  | WithTimeout Duration

text \<open>The closure that \<^verbatim>\<open>WithHTTPClient(c)\<close> returns; \<^verbatim>\<open>WithTimeout\<close> calls it too.\<close>

definition set_client :: "http_Client option \<Rightarrow> Authenticator \<Rightarrow> Authenticator" where
  "set_client c a = a\<lparr>client := c\<rparr>"

fun apply_Option :: "Option \<Rightarrow> Authenticator \<Rightarrow> Authenticator" where
  "apply_Option (WithClientID id') a = a\<lparr>config := (config a)\<lparr>ClientID := id'\<rparr>\<rparr>"
| "apply_Option (WithClientSecret secret) a = a\<lparr>config := (config a)\<lparr>ClientSecret := secret\<rparr>\<rparr>"
| "apply_Option (WithRedirectURL url) a = a\<lparr>config := (config a)\<lparr>RedirectURL := url\<rparr>\<rparr>"
| "apply_Option (WithScopes scopes) a = a\<lparr>config := (config a)\<lparr>Scopes := scopes\<rparr>\<rparr>"
| "apply_Option (WithHTTPClient c) a = set_client c a"
| "apply_Option (WithTimeout timeout) a =
     (let c = \<lparr>Transport = None, CheckRedirect = None, Jar = None, Timeout = timeout\<rparr>
      in set_client (Some c) a)"

text \<open>The loop \<^verbatim>\<open>for _, opt := range opts { opt(auth) }\<close>.\<close>

fun apply_Options :: "Option list \<Rightarrow> Authenticator \<Rightarrow> Authenticator" where
  "apply_Options [] a = a"
| "apply_Options (opt # opts) a = apply_Options opts (apply_Option opt a)"

subsection \<open>New\<close>

definition New :: "(string \<rightharpoonup> string) \<Rightarrow> string \<Rightarrow> Option list \<Rightarrow> error + Authenticator" where
  "New env redirectURL opts =
     (let clientID = os_Getenv env ''SPOTIFY_CLIENT_ID'';
          clientSecret = os_Getenv env ''SPOTIFY_CLIENT_SECRET'';
          cfg = \<lparr>ClientID = [], ClientSecret = [],
                 Endpoint_AuthURL = EndpointAuthURL, Endpoint_TokenURL = EndpointTokenURL,
                 RedirectURL = redirectURL, Scopes = []\<rparr>;
          auth = \<lparr>config = cfg, client = Some http_DefaultClient\<rparr>;
          auth = apply_Options opts auth;
          clientID = (if ClientID (config auth) \<noteq> [] then ClientID (config auth) else clientID);
          clientSecret = (if ClientSecret (config auth) \<noteq> [] then ClientSecret (config auth)
                          else clientSecret);
          auth = auth\<lparr>config := (config auth)\<lparr>ClientID := clientID\<rparr>\<rparr>;
          auth = auth\<lparr>config := (config auth)\<lparr>ClientSecret := clientSecret\<rparr>\<rparr>
      in if ClientID (config auth) = [] then Inl ErrMissingClientID
         else if ClientSecret (config auth) = [] then Inl ErrMissingClientSec
         else Inr auth)"

subsection \<open>The methods of the Authenticator\<close>

text \<open>\<open>AuthURL\<close> may write \<^verbatim>\<open>a.config.Scopes\<close>: it returns the URL and the Authenticator.\<close>

definition AuthURL ::
  "('ctx, 'w, 'hc, 'ts) oauth2 \<Rightarrow> string \<Rightarrow> string list \<Rightarrow> Authenticator
     \<Rightarrow> string \<times> Authenticator" where
  "AuthURL lib state scopes a =
     (let a = (if length scopes > 0 then a\<lparr>config := (config a)\<lparr>Scopes := scopes\<rparr>\<rparr> else a)
      in (Config_AuthCodeURL lib (config a) state [AccessTypeOffline], a))"

text \<open>
  \<open>Token\<close> writes no field of the Authenticator; it returns its result and the world
  state, which only the exchange can have changed.
\<close>

definition Token ::
  "('ctx, 'w, 'hc, 'ts) oauth2 \<Rightarrow> 'ctx \<Rightarrow> string \<Rightarrow> http_Request \<Rightarrow> Authenticator \<Rightarrow> 'w
     \<Rightarrow> (error + oauth2_Token) \<times> 'w" where
  "Token lib ctx state r a w =
     (let vals = URL_Query r;
          err = values_Get vals ''error''
      in if err \<noteq> [] then (Inl (Errorf_w_colon_s ErrAuthFailed err), w)
         else
           let code = values_Get vals ''code''
           in if code = [] then (Inl ErrNoAccessCode, w)
              else
                let actualState = values_Get vals ''state''
                in if actualState \<noteq> state then (Inl ErrStateMismatch, w)
                   else
                     let ctx' = context_WithValue_HTTPClient ctx (client a)
                     in case Config_Exchange lib ctx' (config a) code w of
                          (Inl e, w') \<Rightarrow> (Inl (Errorf_exchange_failed e), w')
                        | (Inr token, w') \<Rightarrow> (Inr token, w'))"

definition Client ::
  "('ctx, 'w, 'hc, 'ts) oauth2 \<Rightarrow> 'ctx \<Rightarrow> oauth2_Token option \<Rightarrow> Authenticator \<Rightarrow> 'hc" where
  "Client lib ctx token a =
     (let ctx' = context_WithValue_HTTPClient ctx (client a)
      in Config_Client lib ctx' (config a) token)"

definition TokenSource ::
  "('ctx, 'w, 'hc, 'ts) oauth2 \<Rightarrow> 'ctx \<Rightarrow> oauth2_Token option \<Rightarrow> Authenticator \<Rightarrow> 'ts" where
  "TokenSource lib ctx token a =
     (let ctx' = context_WithValue_HTTPClient ctx (client a)
      in Config_TokenSource lib ctx' (config a) token)"

subsection \<open>Callers: sequences of method calls\<close>

text \<open>
  What a caller can do with a constructed Authenticator is call its four methods, in any
  order. A call is a value of \<open>call\<close>; \<open>step\<close> performs one call on the current
  Authenticator and world, dropping the value returned to the caller, and \<open>run\<close>
  performs a list of calls from left to right.
\<close>

datatype 'ctx call =
    CallAuthURL string "string list"
  | CallToken 'ctx string http_Request
  | CallClient 'ctx "oauth2_Token option"
  | CallTokenSource 'ctx "oauth2_Token option"

fun step ::
  "('ctx, 'w, 'hc, 'ts) oauth2 \<Rightarrow> 'ctx call \<Rightarrow> Authenticator \<times> 'w \<Rightarrow> Authenticator \<times> 'w" where
  "step lib (CallAuthURL state scopes) (a, w) = (snd (AuthURL lib state scopes a), w)"
| "step lib (CallToken ctx state r) (a, w) = (a, snd (Token lib ctx state r a w))"
| "step lib (CallClient ctx token) (a, w) = (let hc = Client lib ctx token a in (a, w))"
| "step lib (CallTokenSource ctx token) (a, w) =
     (let ts = TokenSource lib ctx token a in (a, w))"

fun run ::
  "('ctx, 'w, 'hc, 'ts) oauth2 \<Rightarrow> 'ctx call list \<Rightarrow> Authenticator \<times> 'w \<Rightarrow> Authenticator \<times> 'w" where
  "run lib [] s = s"
| "run lib (c # cs) s = run lib cs (step lib c s)"

subsection \<open>Vocabulary of the specification\<close>

text \<open>The value of the last client-identifier option of an argument list, if there is one.\<close>

fun last_ClientID :: "Option list \<Rightarrow> string option" where
  "last_ClientID [] = None"
| "last_ClientID (opt # opts) =
     (case last_ClientID opts of
        Some v \<Rightarrow> Some v
      | None \<Rightarrow> (case opt of WithClientID v \<Rightarrow> Some v | _ \<Rightarrow> None))"

fun last_ClientSecret :: "Option list \<Rightarrow> string option" where
  "last_ClientSecret [] = None"
| "last_ClientSecret (opt # opts) =
     (case last_ClientSecret opts of
        Some v \<Rightarrow> Some v
      | None \<Rightarrow> (case opt of WithClientSecret v \<Rightarrow> Some v | _ \<Rightarrow> None))"

text \<open>
  The client installed by the last \<open>WithHTTPClient\<close> or \<open>WithTimeout\<close> of an argument
  list, if there is one.
\<close>

fun last_client :: "Option list \<Rightarrow> http_Client option option" where
  "last_client [] = None"
| "last_client (opt # opts) =
     (case last_client opts of
        Some c \<Rightarrow> Some c
      | None \<Rightarrow>
          (case opt of
             WithHTTPClient c \<Rightarrow> Some c
           | WithTimeout t \<Rightarrow>
               Some (Some \<lparr>Transport = None, CheckRedirect = None, Jar = None, Timeout = t\<rparr>)
           | _ \<Rightarrow> None))"

text \<open>
  The client identifier and secret "after applying all options and falling back to
  environment values": the last option's value when it is not empty, the environment's
  value otherwise.
\<close>

definition resolved_ClientID :: "(string \<rightharpoonup> string) \<Rightarrow> Option list \<Rightarrow> string" where
  "resolved_ClientID env opts =
     (case last_ClientID opts of
        None \<Rightarrow> os_Getenv env ''SPOTIFY_CLIENT_ID''
      | Some v \<Rightarrow> if v = [] then os_Getenv env ''SPOTIFY_CLIENT_ID'' else v)"

definition resolved_ClientSecret :: "(string \<rightharpoonup> string) \<Rightarrow> Option list \<Rightarrow> string" where
  "resolved_ClientSecret env opts =
     (case last_ClientSecret opts of
        None \<Rightarrow> os_Getenv env ''SPOTIFY_CLIENT_SECRET''
      | Some v \<Rightarrow> if v = [] then os_Getenv env ''SPOTIFY_CLIENT_SECRET'' else v)"

text \<open>The scopes of the last \<open>AuthURL\<close> call of a sequence that passes explicit scopes.\<close>

fun explicit_scopes :: "'ctx call list \<Rightarrow> string list option" where
  "explicit_scopes [] = None"
| "explicit_scopes (c # cs) =
     (case explicit_scopes cs of
        Some sc \<Rightarrow> Some sc
      | None \<Rightarrow> (case c of CallAuthURL state sc \<Rightarrow> if sc = [] then None else Some sc
                        | _ \<Rightarrow> None))"

text \<open>The three checks that \<open>Token\<close> makes on the callback before the exchange.\<close>

definition callback_ok :: "string \<Rightarrow> http_Request \<Rightarrow> bool" where
  "callback_ok state r =
     (values_Get (URL_Query r) ''error'' = [] \<and>
      values_Get (URL_Query r) ''code'' \<noteq> [] \<and>
      values_Get (URL_Query r) ''state'' = state)"

subsection \<open>A test double\<close>

text \<open>
  The environment, callback request and token endpoint of \<^verbatim>\<open>TestToken_MockRequest\<close>:
  the mocked transport answers every request with the same token. The world counts the
  requests the endpoint has received. The test does not exercise the other three library
  methods; the double renders their arguments so that runs on concrete inputs show them.
\<close>

definition test_env :: "string \<rightharpoonup> string" where
  "test_env = [''SPOTIFY_CLIENT_ID'' \<mapsto> ''test-client-id'',
               ''SPOTIFY_CLIENT_SECRET'' \<mapsto> ''test-client-secret'']"

definition test_token :: oauth2_Token where
  "test_token = \<lparr>AccessToken = ''test-access-token'', TokenType = ''Bearer'',
                  RefreshToken = ''test-refresh-token'', ExpiresIn = 3600\<rparr>"

definition test_request :: http_Request where
  "test_request = \<lparr>URL_Query = [(''state'', ''test-state''), (''code'', ''test-code'')]\<rparr>"

definition mock_client :: http_Client where
  "mock_client = \<lparr>Transport = Some 1, CheckRedirect = None, Jar = None, Timeout = 0\<rparr>"

definition mock_oauth2 ::
  "(unit, nat, http_Client option \<times> oauth2_Token option,
    http_Client option \<times> oauth2_Token option) oauth2" where
  "mock_oauth2 =
     \<lparr>Config_AuthCodeURL = (\<lambda>cfg state opts.
          Endpoint_AuthURL cfg @ ''?client_id='' @ ClientID cfg
            @ ''&redirect_uri='' @ RedirectURL cfg
            @ ''&scope='' @ concat (map (\<lambda>s. s @ '' '') (Scopes cfg))
            @ ''&state='' @ state
            @ (if AccessTypeOffline \<in> set opts then ''&access_type=offline'' else [])),
       Config_Exchange = (\<lambda>ctx cfg code w. (Inr test_token, Suc w)),
       Config_Client = (\<lambda>ctx cfg token. (snd ctx, token)),
       Config_TokenSource = (\<lambda>ctx cfg token. (snd ctx, token))\<rparr>"

text \<open>The Authenticator that the test constructs with \<^verbatim>\<open>WithHTTPClient(mockClient)\<close>.\<close>

definition test_auth :: Authenticator where
  "test_auth =
     \<lparr>config = \<lparr>ClientID = ''test-client-id'', ClientSecret = ''test-client-secret'',
                 Endpoint_AuthURL = EndpointAuthURL, Endpoint_TokenURL = EndpointTokenURL,
                 RedirectURL = ''http://localhost/callback'', Scopes = []\<rparr>,
      client = Some mock_client\<rparr>"

text \<open>An endpoint that rejects every exchange, for the failure path.\<close>

definition failing_oauth2 ::
  "(unit, nat, http_Client option \<times> oauth2_Token option,
    http_Client option \<times> oauth2_Token option) oauth2" where
  "failing_oauth2 =
     mock_oauth2\<lparr>Config_Exchange :=
       (\<lambda>ctx cfg code w. (Inl (Foreign ''oauth2: cannot fetch token: 400 Bad Request''), Suc w))\<rparr>"

text \<open>
  Callbacks: a denied authorization, one without a code, one with another state, and two
  that carry the test's code and state together with an \<open>error\<close> parameter.
\<close>

definition denied_request :: http_Request where
  "denied_request = \<lparr>URL_Query = [(''error'', ''access_denied'')]\<rparr>"

definition codeless_request :: http_Request where
  "codeless_request = \<lparr>URL_Query = [(''state'', ''test-state'')]\<rparr>"

definition forged_request :: http_Request where
  "forged_request = \<lparr>URL_Query = [(''state'', ''other-state''), (''code'', ''test-code'')]\<rparr>"

definition denied_with_code_request :: http_Request where
  "denied_with_code_request =
     \<lparr>URL_Query = [(''error'', ''access_denied''), (''code'', ''test-code''),
                   (''state'', ''test-state'')]\<rparr>"

definition code_then_error_request :: http_Request where
  "code_then_error_request =
     \<lparr>URL_Query = [(''code'', ''test-code''), (''state'', ''test-state''),
                   (''error'', ''server_error'')]\<rparr>"

section \<open>Properties\<close>

subsection \<open>Options and construction\<close>

lemma apply_Options_ClientID:
  "ClientID (config (apply_Options opts a)) =
     (case last_ClientID opts of None \<Rightarrow> ClientID (config a) | Some v \<Rightarrow> v)"
proof (induction opts arbitrary: a)
  case Nil
  show ?case by simp
next
  case (Cons opt opts)
  show ?case
    by (cases opt) (simp_all add: Cons.IH set_client_def Let_def split: option.split)
qed

lemma apply_Options_ClientSecret:
  "ClientSecret (config (apply_Options opts a)) =
     (case last_ClientSecret opts of None \<Rightarrow> ClientSecret (config a) | Some v \<Rightarrow> v)"
proof (induction opts arbitrary: a)
  case Nil
  show ?case by simp
next
  case (Cons opt opts)
  show ?case
    by (cases opt) (simp_all add: Cons.IH set_client_def Let_def split: option.split)
qed

lemma apply_Options_client:
  "client (apply_Options opts a) = (case last_client opts of None \<Rightarrow> client a | Some c \<Rightarrow> c)"
proof (induction opts arbitrary: a)
  case Nil
  show ?case by simp
next
  case (Cons opt opts)
  show ?case
    by (cases opt) (simp_all add: Cons.IH set_client_def Let_def split: option.split)
qed

lemma apply_Options_endpoints:
  "Endpoint_AuthURL (config (apply_Options opts a)) = Endpoint_AuthURL (config a) \<and>
   Endpoint_TokenURL (config (apply_Options opts a)) = Endpoint_TokenURL (config a)"
proof (induction opts arbitrary: a)
  case Nil
  show ?case by simp
next
  case (Cons opt opts)
  show ?case
    by (cases opt) (simp_all add: Cons.IH set_client_def Let_def)
qed

lemma os_Getenv_other: "k \<noteq> k' \<Longrightarrow> os_Getenv (env(k := x)) k' = os_Getenv env k'"
  by (simp add: os_Getenv_def)

text \<open>The identifier and secret that \<open>New\<close> validates are the resolved ones.\<close>

lemma New_resolved:
  "New env redirectURL opts =
     (if resolved_ClientID env opts = [] then Inl ErrMissingClientID
      else if resolved_ClientSecret env opts = [] then Inl ErrMissingClientSec
      else Inr ((apply_Options opts
                   \<lparr>config = \<lparr>ClientID = [], ClientSecret = [],
                               Endpoint_AuthURL = EndpointAuthURL,
                               Endpoint_TokenURL = EndpointTokenURL,
                               RedirectURL = redirectURL, Scopes = []\<rparr>,
                    client = Some http_DefaultClient\<rparr>)
                 \<lparr>config := (config (apply_Options opts
                   \<lparr>config = \<lparr>ClientID = [], ClientSecret = [],
                               Endpoint_AuthURL = EndpointAuthURL,
                               Endpoint_TokenURL = EndpointTokenURL,
                               RedirectURL = redirectURL, Scopes = []\<rparr>,
                    client = Some http_DefaultClient\<rparr>))
                   \<lparr>ClientID := resolved_ClientID env opts,
                    ClientSecret := resolved_ClientSecret env opts\<rparr>\<rparr>))"
  by (simp add: New_def Let_def resolved_ClientID_def resolved_ClientSecret_def
        apply_Options_ClientID apply_Options_ClientSecret split: option.split)

lemma New_fields:
  assumes "New env redirectURL opts = Inr a"
  shows "ClientID (config a) = resolved_ClientID env opts"
    and "ClientSecret (config a) = resolved_ClientSecret env opts"
    and "resolved_ClientID env opts \<noteq> []"
    and "resolved_ClientSecret env opts \<noteq> []"
    and "client a = (case last_client opts of None \<Rightarrow> Some http_DefaultClient | Some c \<Rightarrow> c)"
    and "Endpoint_AuthURL (config a) = EndpointAuthURL"
    and "Endpoint_TokenURL (config a) = EndpointTokenURL"
  using assms
  by (auto simp: New_resolved apply_Options_client apply_Options_endpoints
        split: if_splits option.splits)

lemma New_test_auth:
  "New test_env ''http://localhost/callback'' [WithHTTPClient (Some mock_client)] = Inr test_auth"
  by (simp add: New_def test_env_def test_auth_def os_Getenv_def set_client_def Let_def)

text \<open>
  C4. After the options are applied and the environment is used as the fallback: when
  the client identifier is empty, \<open>New\<close> fails with \<open>ErrMissingClientID\<close>, whatever the
  secret is; when the identifier is not empty and the secret is, it fails with
  \<open>ErrMissingClientSec\<close>; otherwise it returns an Authenticator, which carries the
  resolved identifier and secret.
\<close>

theorem New_validation:
  "(resolved_ClientID env opts = [] \<longrightarrow>
      New env redirectURL opts = Inl ErrMissingClientID) \<and>
   (resolved_ClientID env opts \<noteq> [] \<and> resolved_ClientSecret env opts = [] \<longrightarrow>
      New env redirectURL opts = Inl ErrMissingClientSec) \<and>
   (resolved_ClientID env opts \<noteq> [] \<and> resolved_ClientSecret env opts \<noteq> [] \<longrightarrow>
      (\<exists>a. New env redirectURL opts = Inr a \<and>
           ClientID (config a) = resolved_ClientID env opts \<and>
           ClientSecret (config a) = resolved_ClientSecret env opts))"
  by (simp add: New_resolved)

theorem New_validation_witness:
  "resolved_ClientID Map.empty [] = [] \<and>
   New Map.empty ''http://localhost/callback'' [] = Inl ErrMissingClientID \<and>
   resolved_ClientID Map.empty [WithClientID ''id'', WithClientSecret []] \<noteq> [] \<and>
   resolved_ClientSecret Map.empty [WithClientID ''id'', WithClientSecret []] = [] \<and>
   New Map.empty ''http://localhost/callback'' [WithClientID ''id'', WithClientSecret []]
     = Inl ErrMissingClientSec \<and>
   resolved_ClientID test_env [] \<noteq> [] \<and> resolved_ClientSecret test_env [] \<noteq> [] \<and>
   (\<exists>a. New test_env ''http://localhost/callback'' [] = Inr a \<and>
        ClientID (config a) = resolved_ClientID test_env [] \<and>
        ClientSecret (config a) = resolved_ClientSecret test_env [])"
proof -
  have e1: "resolved_ClientID Map.empty [] = []"
    by (simp add: resolved_ClientID_def os_Getenv_def)
  have e2: "resolved_ClientID Map.empty [WithClientID ''id'', WithClientSecret []] \<noteq> []"
    by (simp add: resolved_ClientID_def)
  have e3: "resolved_ClientSecret Map.empty [WithClientID ''id'', WithClientSecret []] = []"
    by (simp add: resolved_ClientSecret_def os_Getenv_def)
  have e4: "resolved_ClientID test_env [] \<noteq> []"
    by (simp add: resolved_ClientID_def os_Getenv_def test_env_def)
  have e5: "resolved_ClientSecret test_env [] \<noteq> []"
    by (simp add: resolved_ClientSecret_def os_Getenv_def test_env_def)
  show ?thesis
    using e1 e2 e3 e4 e5
      New_validation [of Map.empty "[]" "''http://localhost/callback''"]
      New_validation [of Map.empty "[WithClientID ''id'', WithClientSecret []]"
        "''http://localhost/callback''"]
      New_validation [of test_env "[]" "''http://localhost/callback''"]
    by simp
qed

text \<open>
  C3, as the code has it. In an Authenticator that \<open>New\<close> returns, the client identifier
  is the value of the last client-identifier option when that value is not empty, and
  the environment's value when that value is empty or no such option is given; the same
  holds for the secret. When the last identifier (secret) option is not empty, the
  result of \<open>New\<close> does not depend on the environment's identifier (secret) at all,
  wherever the option stands among the other options.
\<close>

theorem New_option_precedence:
  "(\<forall>a. New env redirectURL opts = Inr a \<longrightarrow>
        ClientID (config a) =
          (case last_ClientID opts of
             None \<Rightarrow> os_Getenv env ''SPOTIFY_CLIENT_ID''
           | Some v \<Rightarrow> if v = [] then os_Getenv env ''SPOTIFY_CLIENT_ID'' else v) \<and>
        ClientSecret (config a) =
          (case last_ClientSecret opts of
             None \<Rightarrow> os_Getenv env ''SPOTIFY_CLIENT_SECRET''
           | Some v \<Rightarrow> if v = [] then os_Getenv env ''SPOTIFY_CLIENT_SECRET'' else v)) \<and>
   (\<forall>v. last_ClientID opts = Some v \<and> v \<noteq> [] \<longrightarrow>
        New (env(''SPOTIFY_CLIENT_ID'' := x)) redirectURL opts = New env redirectURL opts) \<and>
   (\<forall>v. last_ClientSecret opts = Some v \<and> v \<noteq> [] \<longrightarrow>
        New (env(''SPOTIFY_CLIENT_SECRET'' := x)) redirectURL opts = New env redirectURL opts)"
proof (intro conjI allI impI)
  fix a
  assume ok: "New env redirectURL opts = Inr a"
  show "ClientID (config a) =
          (case last_ClientID opts of
             None \<Rightarrow> os_Getenv env ''SPOTIFY_CLIENT_ID''
           | Some v \<Rightarrow> if v = [] then os_Getenv env ''SPOTIFY_CLIENT_ID'' else v)"
    using New_fields(1) [OF ok] by (simp add: resolved_ClientID_def)
  show "ClientSecret (config a) =
          (case last_ClientSecret opts of
             None \<Rightarrow> os_Getenv env ''SPOTIFY_CLIENT_SECRET''
           | Some v \<Rightarrow> if v = [] then os_Getenv env ''SPOTIFY_CLIENT_SECRET'' else v)"
    using New_fields(2) [OF ok] by (simp add: resolved_ClientSecret_def)
next
  fix v
  assume "last_ClientID opts = Some v \<and> v \<noteq> []"
  then have "resolved_ClientID (env(''SPOTIFY_CLIENT_ID'' := x)) opts = resolved_ClientID env opts"
    and "resolved_ClientSecret (env(''SPOTIFY_CLIENT_ID'' := x)) opts = resolved_ClientSecret env opts"
    by (simp_all add: resolved_ClientID_def resolved_ClientSecret_def os_Getenv_other
          split: option.split)
  then show "New (env(''SPOTIFY_CLIENT_ID'' := x)) redirectURL opts = New env redirectURL opts"
    by (simp add: New_resolved)
next
  fix v
  assume "last_ClientSecret opts = Some v \<and> v \<noteq> []"
  then have "resolved_ClientID (env(''SPOTIFY_CLIENT_SECRET'' := x)) opts = resolved_ClientID env opts"
    and "resolved_ClientSecret (env(''SPOTIFY_CLIENT_SECRET'' := x)) opts
           = resolved_ClientSecret env opts"
    by (simp_all add: resolved_ClientID_def resolved_ClientSecret_def os_Getenv_other
          split: option.split)
  then show "New (env(''SPOTIFY_CLIENT_SECRET'' := x)) redirectURL opts = New env redirectURL opts"
    by (simp add: New_resolved)
qed

text \<open>
  The environment holds an identifier and a secret; the options give another identifier
  first and another secret last, with other options around them. The Authenticator
  carries the options' values, and construction gives the same result when the
  environment's identifier is unset.
\<close>

theorem New_option_precedence_witness:
  "New test_env ''http://localhost/callback''
     [WithClientID ''opt-id'', WithScopes [''user-read-email''], WithClientSecret ''opt-secret'']
     = Inr \<lparr>config = \<lparr>ClientID = ''opt-id'', ClientSecret = ''opt-secret'',
                       Endpoint_AuthURL = EndpointAuthURL, Endpoint_TokenURL = EndpointTokenURL,
                       RedirectURL = ''http://localhost/callback'',
                       Scopes = [''user-read-email'']\<rparr>,
            client = Some http_DefaultClient\<rparr> \<and>
   New (test_env(''SPOTIFY_CLIENT_ID'' := None)) ''http://localhost/callback''
     [WithClientID ''opt-id'', WithScopes [''user-read-email''], WithClientSecret ''opt-secret'']
     = New test_env ''http://localhost/callback''
     [WithClientID ''opt-id'', WithScopes [''user-read-email''], WithClientSecret ''opt-secret'']"
proof -
  have n: "New test_env ''http://localhost/callback''
     [WithClientID ''opt-id'', WithScopes [''user-read-email''], WithClientSecret ''opt-secret'']
     = Inr \<lparr>config = \<lparr>ClientID = ''opt-id'', ClientSecret = ''opt-secret'',
                       Endpoint_AuthURL = EndpointAuthURL, Endpoint_TokenURL = EndpointTokenURL,
                       RedirectURL = ''http://localhost/callback'',
                       Scopes = [''user-read-email'']\<rparr>,
            client = Some http_DefaultClient\<rparr>"
    by (simp add: New_def test_env_def os_Getenv_def Let_def)
  have l: "last_ClientID
     [WithClientID ''opt-id'', WithScopes [''user-read-email''], WithClientSecret ''opt-secret'']
     = Some ''opt-id'' \<and> ''opt-id'' \<noteq> []"
    by simp
  show ?thesis
    using n l New_option_precedence [of test_env "''http://localhost/callback''"
      "[WithClientID ''opt-id'', WithScopes [''user-read-email''], WithClientSecret ''opt-secret'']"
      None]
    by blast
qed

text \<open>
  The claim C3 as it is written fails for an option whose value is the empty string:
  the environment's identifier is used, and the Authenticator is constructed with it.
\<close>

theorem New_empty_option_counterexample:
  "New test_env ''http://localhost/callback'' [WithClientID []]
     = Inr \<lparr>config = \<lparr>ClientID = ''test-client-id'', ClientSecret = ''test-client-secret'',
                       Endpoint_AuthURL = EndpointAuthURL, Endpoint_TokenURL = EndpointTokenURL,
                       RedirectURL = ''http://localhost/callback'', Scopes = []\<rparr>,
            client = Some http_DefaultClient\<rparr>"
  by (simp add: New_def test_env_def os_Getenv_def Let_def)

text \<open>
  C10. \<open>WithTimeout\<close> sets the client to a new one that carries only the timeout, whatever
  client was there before; \<open>WithHTTPClient\<close> sets it to its argument. After all options
  are applied, and so in the Authenticator that \<open>New\<close> returns, the client is the one
  installed by the last of these two kinds of option in the argument list, and the
  default client when there is none.
\<close>

theorem WithTimeout_replaces_client:
  "apply_Option (WithTimeout t) a =
     a\<lparr>client := Some \<lparr>Transport = None, CheckRedirect = None, Jar = None, Timeout = t\<rparr>\<rparr> \<and>
   apply_Option (WithTimeout t) (apply_Option (WithHTTPClient c) a) =
     apply_Option (WithTimeout t) a \<and>
   apply_Option (WithHTTPClient c) (apply_Option (WithTimeout t) a) =
     apply_Option (WithHTTPClient c) a \<and>
   client (apply_Options opts a) =
     (case last_client opts of None \<Rightarrow> client a | Some c' \<Rightarrow> c') \<and>
   (\<forall>a'. New env redirectURL opts = Inr a' \<longrightarrow>
      client a' = (case last_client opts of None \<Rightarrow> Some http_DefaultClient | Some c' \<Rightarrow> c'))"
proof (intro conjI allI impI)
  show "client (apply_Options opts a) =
     (case last_client opts of None \<Rightarrow> client a | Some c' \<Rightarrow> c')"
    by (rule apply_Options_client)
next
  fix a'
  assume "New env redirectURL opts = Inr a'"
  then show "client a' =
     (case last_client opts of None \<Rightarrow> Some http_DefaultClient | Some c' \<Rightarrow> c')"
    by (rule New_fields(5))
qed (simp_all add: set_client_def Let_def)

theorem WithTimeout_replaces_client_witness:
  "New test_env ''http://localhost/callback'' [WithHTTPClient (Some mock_client), WithTimeout 30]
     = Inr (test_auth\<lparr>client :=
         Some \<lparr>Transport = None, CheckRedirect = None, Jar = None, Timeout = 30\<rparr>\<rparr>) \<and>
   client (test_auth\<lparr>client :=
         Some \<lparr>Transport = None, CheckRedirect = None, Jar = None, Timeout = 30\<rparr>\<rparr>)
     = (case last_client [WithHTTPClient (Some mock_client), WithTimeout 30] of
          None \<Rightarrow> Some http_DefaultClient | Some c' \<Rightarrow> c') \<and>
   New test_env ''http://localhost/callback'' [WithTimeout 30, WithHTTPClient (Some mock_client)]
     = Inr test_auth \<and>
   client test_auth
     = (case last_client [WithTimeout 30, WithHTTPClient (Some mock_client)] of
          None \<Rightarrow> Some http_DefaultClient | Some c' \<Rightarrow> c')"
proof -
  have n1: "New test_env ''http://localhost/callback''
              [WithHTTPClient (Some mock_client), WithTimeout 30]
     = Inr (test_auth\<lparr>client :=
         Some \<lparr>Transport = None, CheckRedirect = None, Jar = None, Timeout = 30\<rparr>\<rparr>)"
    by (simp add: New_def test_env_def test_auth_def os_Getenv_def set_client_def Let_def)
  have n2: "New test_env ''http://localhost/callback''
              [WithTimeout 30, WithHTTPClient (Some mock_client)] = Inr test_auth"
    by (simp add: New_def test_env_def test_auth_def os_Getenv_def set_client_def Let_def)
  show ?thesis
    using n1 n2
      WithTimeout_replaces_client [of 0 test_auth None
        "[WithHTTPClient (Some mock_client), WithTimeout 30]" test_env
        "''http://localhost/callback''"]
      WithTimeout_replaces_client [of 0 test_auth None
        "[WithTimeout 30, WithHTTPClient (Some mock_client)]" test_env
        "''http://localhost/callback''"]
    by blast
qed

subsection \<open>The code exchange\<close>

lemma errors_Is_refl: "errors_Is e e"
  by (cases e) simp_all

lemma Token_error_param:
  assumes "values_Get (URL_Query r) ''error'' \<noteq> []"
  shows "Token lib ctx state r a w =
           (Inl (Wrapped (''spotify: authentication failed: '' @ values_Get (URL_Query r) ''error'')
                   ErrAuthFailed), w)"
  using assms by (simp add: Token_def Let_def Errorf_w_colon_s_def)

lemma Token_no_code:
  assumes "values_Get (URL_Query r) ''error'' = []"
      and "values_Get (URL_Query r) ''code'' = []"
  shows "Token lib ctx state r a w = (Inl ErrNoAccessCode, w)"
  using assms by (simp add: Token_def Let_def)

lemma Token_state_mismatch:
  assumes "values_Get (URL_Query r) ''error'' = []"
      and "values_Get (URL_Query r) ''code'' \<noteq> []"
      and "values_Get (URL_Query r) ''state'' \<noteq> state"
  shows "Token lib ctx state r a w = (Inl ErrStateMismatch, w)"
  using assms by (simp add: Token_def Let_def)

lemma Token_exchanges:
  assumes "callback_ok state r"
  shows "Token lib ctx state r a w =
           (case Config_Exchange lib (ctx, client a) (config a)
                   (values_Get (URL_Query r) ''code'') w of
              (Inl e, w') \<Rightarrow> (Inl (Errorf_exchange_failed e), w')
            | (Inr token, w') \<Rightarrow> (Inr token, w'))"
  using assms
  by (simp add: Token_def Let_def callback_ok_def context_WithValue_HTTPClient_def)

lemma Token_rejects:
  assumes "\<not> callback_ok state r"
  shows "snd (Token lib ctx state r a w) = w"
    and "Token lib ctx state r a w = Token lib' ctx state r a w"
  using assms by (auto simp: Token_def Let_def callback_ok_def)

text \<open>
  C1. \<open>Token\<close> looks at the query parameters in a fixed order. A non-empty \<open>error\<close>
  parameter gives \<open>ErrAuthFailed\<close> wrapped with the provider's message, whatever the other
  parameters are; otherwise an absent or empty \<open>code\<close> gives \<open>ErrNoAccessCode\<close>; otherwise
  a \<open>state\<close> different from the expected one gives \<open>ErrStateMismatch\<close>. In these three
  cases the library is not involved: the world is unchanged and the result is the same
  for every library. Only when the three checks pass is the exchange performed, with the
  Authenticator's client and configuration and the callback's code.
\<close>

theorem Token_check_order:
  "(values_Get (URL_Query r) ''error'' \<noteq> [] \<longrightarrow>
      Token lib ctx state r a w =
        (Inl (Wrapped (''spotify: authentication failed: '' @ values_Get (URL_Query r) ''error'')
                ErrAuthFailed), w)) \<and>
   (values_Get (URL_Query r) ''error'' = [] \<and> values_Get (URL_Query r) ''code'' = [] \<longrightarrow>
      Token lib ctx state r a w = (Inl ErrNoAccessCode, w)) \<and>
   (values_Get (URL_Query r) ''error'' = [] \<and> values_Get (URL_Query r) ''code'' \<noteq> [] \<and>
    values_Get (URL_Query r) ''state'' \<noteq> state \<longrightarrow>
      Token lib ctx state r a w = (Inl ErrStateMismatch, w)) \<and>
   (values_Get (URL_Query r) ''error'' = [] \<and> values_Get (URL_Query r) ''code'' \<noteq> [] \<and>
    values_Get (URL_Query r) ''state'' = state \<longrightarrow>
      Token lib ctx state r a w =
        (case Config_Exchange lib (ctx, client a) (config a)
                (values_Get (URL_Query r) ''code'') w of
           (Inl e, w') \<Rightarrow> (Inl (Errorf_exchange_failed e), w')
         | (Inr token, w') \<Rightarrow> (Inr token, w'))) \<and>
   (\<not> (values_Get (URL_Query r) ''error'' = [] \<and> values_Get (URL_Query r) ''code'' \<noteq> [] \<and>
       values_Get (URL_Query r) ''state'' = state) \<longrightarrow>
      Token lib ctx state r a w = Token lib' ctx state r a w)"
proof (intro conjI impI)
  assume "values_Get (URL_Query r) ''error'' \<noteq> []"
  then show "Token lib ctx state r a w =
        (Inl (Wrapped (''spotify: authentication failed: '' @ values_Get (URL_Query r) ''error'')
                ErrAuthFailed), w)"
    by (rule Token_error_param)
next
  assume "values_Get (URL_Query r) ''error'' = [] \<and> values_Get (URL_Query r) ''code'' = []"
  then show "Token lib ctx state r a w = (Inl ErrNoAccessCode, w)"
    by (simp add: Token_no_code)
next
  assume "values_Get (URL_Query r) ''error'' = [] \<and> values_Get (URL_Query r) ''code'' \<noteq> [] \<and>
    values_Get (URL_Query r) ''state'' \<noteq> state"
  then show "Token lib ctx state r a w = (Inl ErrStateMismatch, w)"
    by (simp add: Token_state_mismatch)
next
  assume "values_Get (URL_Query r) ''error'' = [] \<and> values_Get (URL_Query r) ''code'' \<noteq> [] \<and>
    values_Get (URL_Query r) ''state'' = state"
  then have "callback_ok state r"
    by (simp add: callback_ok_def)
  then show "Token lib ctx state r a w =
        (case Config_Exchange lib (ctx, client a) (config a)
                (values_Get (URL_Query r) ''code'') w of
           (Inl e, w') \<Rightarrow> (Inl (Errorf_exchange_failed e), w')
         | (Inr token, w') \<Rightarrow> (Inr token, w'))"
    by (rule Token_exchanges)
next
  assume "\<not> (values_Get (URL_Query r) ''error'' = [] \<and> values_Get (URL_Query r) ''code'' \<noteq> [] \<and>
       values_Get (URL_Query r) ''state'' = state)"
  then have "\<not> callback_ok state r"
    by (simp add: callback_ok_def)
  then show "Token lib ctx state r a w = Token lib' ctx state r a w"
    by (rule Token_rejects(2))
qed

text \<open>
  The four callbacks of the specification's test list, against the mocked endpoint: a
  denied authorization, a callback without a code, a callback with another state, and
  the callback of the test, which reaches the endpoint once.
\<close>

theorem Token_check_order_witness:
  "Token mock_oauth2 () ''test-state'' denied_request test_auth 0 =
     (Inl (Wrapped ''spotify: authentication failed: access_denied'' ErrAuthFailed), 0) \<and>
   Token mock_oauth2 () ''test-state'' codeless_request test_auth 0 = (Inl ErrNoAccessCode, 0) \<and>
   Token mock_oauth2 () ''test-state'' forged_request test_auth 0 = (Inl ErrStateMismatch, 0) \<and>
   Token mock_oauth2 () ''test-state'' test_request test_auth 0 = (Inr test_token, 1) \<and>
   Token mock_oauth2 () ''test-state'' forged_request test_auth 0 =
     Token failing_oauth2 () ''test-state'' forged_request test_auth 0"
proof -
  have v: "values_Get (URL_Query denied_request) ''error'' = ''access_denied''"
    "values_Get (URL_Query codeless_request) ''error'' = []"
    "values_Get (URL_Query codeless_request) ''code'' = []"
    "values_Get (URL_Query forged_request) ''error'' = []"
    "values_Get (URL_Query forged_request) ''code'' = ''test-code''"
    "values_Get (URL_Query forged_request) ''state'' = ''other-state''"
    "values_Get (URL_Query test_request) ''error'' = []"
    "values_Get (URL_Query test_request) ''code'' = ''test-code''"
    "values_Get (URL_Query test_request) ''state'' = ''test-state''"
    by (simp_all add: values_Get_def denied_request_def codeless_request_def
          forged_request_def test_request_def)
  have x: "Config_Exchange mock_oauth2 ((), client test_auth) (config test_auth) ''test-code'' 0
             = (Inr test_token, 1)"
    by (simp add: mock_oauth2_def)
  show ?thesis
    using v x
      Token_check_order [of denied_request mock_oauth2 "()" "''test-state''" test_auth 0
        failing_oauth2]
      Token_check_order [of codeless_request mock_oauth2 "()" "''test-state''" test_auth 0
        failing_oauth2]
      Token_check_order [of forged_request mock_oauth2 "()" "''test-state''" test_auth 0
        failing_oauth2]
      Token_check_order [of test_request mock_oauth2 "()" "''test-state''" test_auth 0
        failing_oauth2]
    by auto
qed

text \<open>
  C2, as the code has it. For a callback with no \<open>error\<close> parameter, a non-empty code and
  the expected state: when the library's exchange, made with the Authenticator's client
  and configuration and the callback's code, returns a token, \<open>Token\<close> returns that very
  token, so its access and refresh tokens are the endpoint's; when the exchange fails
  with an error, \<open>Token\<close> returns an error whose message is "spotify: token exchange
  failed: " followed by the cause's message and which wraps the cause.
\<close>

theorem Token_exchange_result:
  assumes "values_Get (URL_Query r) ''error'' = []"
      and "values_Get (URL_Query r) ''code'' \<noteq> []"
      and "values_Get (URL_Query r) ''state'' = state"
  shows "(Config_Exchange lib (ctx, client a) (config a) (values_Get (URL_Query r) ''code'') w
            = (Inr token, w') \<longrightarrow>
          Token lib ctx state r a w = (Inr token, w') \<and>
          (\<forall>t. fst (Token lib ctx state r a w) = Inr t \<longrightarrow>
               AccessToken t = AccessToken token \<and> RefreshToken t = RefreshToken token)) \<and>
         (Config_Exchange lib (ctx, client a) (config a) (values_Get (URL_Query r) ''code'') w
            = (Inl e, w') \<longrightarrow>
          Token lib ctx state r a w =
            (Inl (Wrapped (''spotify: token exchange failed: '' @ Error e) e), w') \<and>
          Unwrap (Wrapped (''spotify: token exchange failed: '' @ Error e) e) = Some e \<and>
          errors_Is (Wrapped (''spotify: token exchange failed: '' @ Error e) e) e)"
proof -
  from assms have ok: "callback_ok state r"
    by (simp add: callback_ok_def)
  show ?thesis
    by (simp add: Token_exchanges [OF ok] Errorf_exchange_failed_def errors_Is_refl)
qed

theorem Token_exchange_result_witness:
  "Token mock_oauth2 () ''test-state'' test_request test_auth 0 = (Inr test_token, 1) \<and>
   AccessToken test_token = ''test-access-token'' \<and>
   RefreshToken test_token = ''test-refresh-token'' \<and>
   Token failing_oauth2 () ''test-state'' test_request test_auth 0 =
     (Inl (Wrapped ''spotify: token exchange failed: oauth2: cannot fetch token: 400 Bad Request''
             (Foreign ''oauth2: cannot fetch token: 400 Bad Request'')), 1)"
proof -
  have v: "values_Get (URL_Query test_request) ''error'' = []"
    "values_Get (URL_Query test_request) ''code'' \<noteq> []"
    "values_Get (URL_Query test_request) ''state'' = ''test-state''"
    by (simp_all add: values_Get_def test_request_def)
  have x: "Config_Exchange mock_oauth2 ((), client test_auth) (config test_auth)
             (values_Get (URL_Query test_request) ''code'') 0 = (Inr test_token, 1)"
    by (simp add: mock_oauth2_def)
  have y: "Config_Exchange failing_oauth2 ((), client test_auth) (config test_auth)
             (values_Get (URL_Query test_request) ''code'') 0
             = (Inl (Foreign ''oauth2: cannot fetch token: 400 Bad Request''), 1)"
    by (simp add: failing_oauth2_def)
  have m: "Token mock_oauth2 () ''test-state'' test_request test_auth 0 = (Inr test_token, 1)"
    using Token_exchange_result [OF v, where lib = mock_oauth2 and ctx = "()" and a = test_auth
        and w = 0 and token = test_token and w' = 1] x
    by blast
  have f: "Token failing_oauth2 () ''test-state'' test_request test_auth 0 =
     (Inl (Wrapped (''spotify: token exchange failed: ''
                      @ Error (Foreign ''oauth2: cannot fetch token: 400 Bad Request''))
             (Foreign ''oauth2: cannot fetch token: 400 Bad Request'')), 1)"
    using Token_exchange_result [OF v, where lib = failing_oauth2 and ctx = "()" and a = test_auth
        and w = 0 and e = "Foreign ''oauth2: cannot fetch token: 400 Bad Request''" and w' = 1] y
    by blast
  have t: "AccessToken test_token = ''test-access-token''"
    "RefreshToken test_token = ''test-refresh-token''"
    by (simp_all add: test_token_def)
  show ?thesis
    using m f t by simp
qed

text \<open>
  The claim C2 as it is written fails for a callback that carries a non-empty code and
  the expected state together with an \<open>error\<close> parameter: the endpoint would return the
  token, and \<open>Token\<close> fails before asking it.
\<close>

theorem Token_error_with_code_counterexample:
  "values_Get (URL_Query denied_with_code_request) ''code'' = ''test-code'' \<and>
   values_Get (URL_Query denied_with_code_request) ''state'' = ''test-state'' \<and>
   Config_Exchange mock_oauth2 ((), client test_auth) (config test_auth) ''test-code'' 0
     = (Inr test_token, 1) \<and>
   Token mock_oauth2 () ''test-state'' denied_with_code_request test_auth 0 =
     (Inl (Wrapped ''spotify: authentication failed: access_denied'' ErrAuthFailed), 0)"
  by (simp add: Token_def Let_def values_Get_def denied_with_code_request_def mock_oauth2_def
        Errorf_w_colon_s_def)

text \<open>
  C8, as the code has it. \<open>Token\<close> writes no field of the Authenticator, so a second
  call meets the same Authenticator and sends the library the same client,
  configuration and code. Whenever the endpoint answers the second request as it
  answered the first, the two calls return the same result; and for a callback with no
  \<open>error\<close> parameter, a non-empty code and the expected state, when that answer is a
  token, both calls succeed with that token.
\<close>

theorem Token_repeatable:
  assumes "w1 = snd (Token lib ctx state r a w)"
      and "fst (Config_Exchange lib (ctx, client a) (config a)
                  (values_Get (URL_Query r) ''code'') w1) =
           fst (Config_Exchange lib (ctx, client a) (config a)
                  (values_Get (URL_Query r) ''code'') w)"
  shows "fst (Token lib ctx state r a w1) = fst (Token lib ctx state r a w) \<and>
         fst (step lib (CallToken ctx state r) (a, w)) = a \<and>
         (callback_ok state r \<and>
          fst (Config_Exchange lib (ctx, client a) (config a)
                 (values_Get (URL_Query r) ''code'') w) = Inr token \<longrightarrow>
            fst (Token lib ctx state r a w) = Inr token \<and>
            fst (Token lib ctx state r a w1) = Inr token)"
proof (cases "callback_ok state r")
  case True
  show ?thesis
    using assms(2)
    by (auto simp: Token_exchanges [OF True] split: prod.splits sum.splits)
next
  case False
  have "w1 = w"
    using assms(1) Token_rejects(1) [OF False] by simp
  then show ?thesis
    using False by simp
qed

text \<open>The test's callback, exchanged twice against the mocked endpoint.\<close>

theorem Token_repeatable_witness:
  "snd (Token mock_oauth2 () ''test-state'' test_request test_auth 0) = 1 \<and>
   callback_ok ''test-state'' test_request \<and>
   fst (Token mock_oauth2 () ''test-state'' test_request test_auth 0) = Inr test_token \<and>
   fst (Token mock_oauth2 () ''test-state'' test_request test_auth 1) = Inr test_token"
proof -
  have w1: "1 = snd (Token mock_oauth2 () ''test-state'' test_request test_auth 0)"
    by (simp add: Token_def Let_def values_Get_def test_request_def mock_oauth2_def)
  have same: "fst (Config_Exchange mock_oauth2 ((), client test_auth) (config test_auth)
                  (values_Get (URL_Query test_request) ''code'') 1) =
           fst (Config_Exchange mock_oauth2 ((), client test_auth) (config test_auth)
                  (values_Get (URL_Query test_request) ''code'') 0)"
    by (simp add: mock_oauth2_def)
  have ok: "callback_ok ''test-state'' test_request"
    by (simp add: callback_ok_def values_Get_def test_request_def)
  have x: "fst (Config_Exchange mock_oauth2 ((), client test_auth) (config test_auth)
                  (values_Get (URL_Query test_request) ''code'') 0) = Inr test_token"
    by (simp add: mock_oauth2_def)
  show ?thesis
    using w1 ok x Token_repeatable [OF w1 same, of test_token]
    by simp
qed

text \<open>
  The claim C8 as it is written fails for two calls with the same non-empty code and
  the expected state when the callback also carries an \<open>error\<close> parameter: the mocked
  endpoint answers every request with the token, and both calls fail.
\<close>

theorem Token_twice_counterexample:
  "values_Get (URL_Query code_then_error_request) ''code'' = ''test-code'' \<and>
   values_Get (URL_Query code_then_error_request) ''state'' = ''test-state'' \<and>
   Config_Exchange mock_oauth2 ((), client test_auth) (config test_auth) ''test-code'' 0
     = (Inr test_token, 1) \<and>
   Config_Exchange mock_oauth2 ((), client test_auth) (config test_auth) ''test-code'' 1
     = (Inr test_token, 2) \<and>
   Token mock_oauth2 () ''test-state'' code_then_error_request test_auth 0 =
     (Inl (Wrapped ''spotify: authentication failed: server_error'' ErrAuthFailed), 0) \<and>
   Token mock_oauth2 () ''test-state'' code_then_error_request test_auth
       (snd (Token mock_oauth2 () ''test-state'' code_then_error_request test_auth 0)) =
     (Inl (Wrapped ''spotify: authentication failed: server_error'' ErrAuthFailed), 0)"
  by (simp add: Token_def Let_def values_Get_def code_then_error_request_def mock_oauth2_def
        Errorf_w_colon_s_def)

subsection \<open>The authorization URL and the scope set\<close>

lemma AuthURL_fst:
  "fst (AuthURL lib state scopes a) =
     Config_AuthCodeURL lib (config (snd (AuthURL lib state scopes a))) state [AccessTypeOffline]"
  by (simp add: AuthURL_def Let_def)

lemma AuthURL_snd:
  "snd (AuthURL lib state scopes a) =
     a\<lparr>config := (config a)\<lparr>Scopes := (if scopes = [] then Scopes (config a) else scopes)\<rparr>\<rparr>"
  by (simp add: AuthURL_def Let_def)

lemma step_frame:
  "fst (step lib c (a, w)) =
     a\<lparr>config := (config a)\<lparr>Scopes :=
        (case explicit_scopes [c] of None \<Rightarrow> Scopes (config a) | Some sc \<Rightarrow> sc)\<rparr>\<rparr>"
  by (cases c) (simp_all add: AuthURL_snd)

lemma run_frame:
  "fst (run lib cs (a, w)) =
     a\<lparr>config := (config a)\<lparr>Scopes :=
        (case explicit_scopes cs of None \<Rightarrow> Scopes (config a) | Some sc \<Rightarrow> sc)\<rparr>\<rparr>"
proof (induction cs arbitrary: a w)
  case Nil
  show ?case by simp
next
  case (Cons c cs)
  obtain a1 w1 where s: "step lib c (a, w) = (a1, w1)"
    by (cases "step lib c (a, w)")
  have a1: "a1 = a\<lparr>config := (config a)\<lparr>Scopes :=
        (case explicit_scopes [c] of None \<Rightarrow> Scopes (config a) | Some sc \<Rightarrow> sc)\<rparr>\<rparr>"
    using step_frame [of lib c a w] s by simp
  have "fst (run lib (c # cs) (a, w)) = fst (run lib cs (a1, w1))"
    by (simp add: s)
  also have "\<dots> = a1\<lparr>config := (config a1)\<lparr>Scopes :=
        (case explicit_scopes cs of None \<Rightarrow> Scopes (config a1) | Some sc \<Rightarrow> sc)\<rparr>\<rparr>"
    by (rule Cons.IH)
  also have "\<dots> = a\<lparr>config := (config a)\<lparr>Scopes :=
        (case explicit_scopes (c # cs) of None \<Rightarrow> Scopes (config a) | Some sc \<Rightarrow> sc)\<rparr>\<rparr>"
    by (simp add: a1 split: option.split)
  finally show ?case .
qed



text \<open>
  C9. A call of \<open>AuthURL\<close> without scopes leaves the Authenticator as it was, and the URL
  is built from the configuration it already had, stored scope set included.
\<close>

theorem AuthURL_without_scopes:
  "AuthURL lib state [] a = (Config_AuthCodeURL lib (config a) state [AccessTypeOffline], a) \<and>
   Scopes (config (snd (AuthURL lib state [] a))) = Scopes (config a)"
  by (simp add: AuthURL_def Let_def)

theorem AuthURL_without_scopes_witness:
  "AuthURL mock_oauth2 ''state123'' []
      (test_auth\<lparr>config := (config test_auth)\<lparr>Scopes := [''user-read-email'']\<rparr>\<rparr>) =
     (''https://accounts.spotify.com/authorize?client_id=test-client-id''
        @ ''&redirect_uri=http://localhost/callback''
        @ ''&scope=user-read-email ''
        @ ''&state=state123&access_type=offline'',
      test_auth\<lparr>config := (config test_auth)\<lparr>Scopes := [''user-read-email'']\<rparr>\<rparr>)"
proof -
  have "Config_AuthCodeURL mock_oauth2
       (config (test_auth\<lparr>config := (config test_auth)\<lparr>Scopes := [''user-read-email'']\<rparr>\<rparr>))
       ''state123'' [AccessTypeOffline] =
     ''https://accounts.spotify.com/authorize?client_id=test-client-id''
        @ ''&redirect_uri=http://localhost/callback''
        @ ''&scope=user-read-email ''
        @ ''&state=state123&access_type=offline''"
    by (simp add: mock_oauth2_def test_auth_def EndpointAuthURL_def)
  then show ?thesis
    using AuthURL_without_scopes [of mock_oauth2 "''state123''"
      "test_auth\<lparr>config := (config test_auth)\<lparr>Scopes := [''user-read-email'']\<rparr>\<rparr>"]
    by simp
qed

text \<open>
  C7. A call of \<open>AuthURL\<close> with a non-empty list of scopes stores that list as the
  Authenticator's scope set and builds its URL from it. The change stays: after any
  further calls of the four methods, a call of \<open>AuthURL\<close> without scopes builds its URL
  from the list most recently passed to \<open>AuthURL\<close>, which is this list as long as no later
  call passed another, and leaves it stored.
\<close>

theorem AuthURL_scopes_persist:
  assumes "scopes \<noteq> []"
  shows "snd (AuthURL lib state scopes a) = a\<lparr>config := (config a)\<lparr>Scopes := scopes\<rparr>\<rparr> \<and>
         fst (AuthURL lib state scopes a) =
           Config_AuthCodeURL lib ((config a)\<lparr>Scopes := scopes\<rparr>) state [AccessTypeOffline] \<and>
         AuthURL lib state' [] (fst (run lib cs (snd (AuthURL lib state scopes a), w))) =
           (Config_AuthCodeURL lib
              ((config a)\<lparr>Scopes := (case explicit_scopes cs of None \<Rightarrow> scopes | Some sc \<Rightarrow> sc)\<rparr>)
              state' [AccessTypeOffline],
            a\<lparr>config := (config a)\<lparr>Scopes :=
                 (case explicit_scopes cs of None \<Rightarrow> scopes | Some sc \<Rightarrow> sc)\<rparr>\<rparr>) \<and>
         (explicit_scopes cs = None \<longrightarrow>
            AuthURL lib state' [] (fst (run lib cs (snd (AuthURL lib state scopes a), w))) =
              (Config_AuthCodeURL lib ((config a)\<lparr>Scopes := scopes\<rparr>) state' [AccessTypeOffline],
               a\<lparr>config := (config a)\<lparr>Scopes := scopes\<rparr>\<rparr>))"
proof -
  have s: "snd (AuthURL lib state scopes a) = a\<lparr>config := (config a)\<lparr>Scopes := scopes\<rparr>\<rparr>"
    using assms by (simp add: AuthURL_snd)
  have f: "fst (AuthURL lib state scopes a) =
           Config_AuthCodeURL lib ((config a)\<lparr>Scopes := scopes\<rparr>) state [AccessTypeOffline]"
    by (simp add: AuthURL_fst s)
  have r: "fst (run lib cs (snd (AuthURL lib state scopes a), w)) =
           a\<lparr>config := (config a)\<lparr>Scopes :=
                 (case explicit_scopes cs of None \<Rightarrow> scopes | Some sc \<Rightarrow> sc)\<rparr>\<rparr>"
    by (simp add: s run_frame split: option.split)
  have u: "AuthURL lib state' [] (fst (run lib cs (snd (AuthURL lib state scopes a), w))) =
           (Config_AuthCodeURL lib
              ((config a)\<lparr>Scopes := (case explicit_scopes cs of None \<Rightarrow> scopes | Some sc \<Rightarrow> sc)\<rparr>)
              state' [AccessTypeOffline],
            a\<lparr>config := (config a)\<lparr>Scopes :=
                 (case explicit_scopes cs of None \<Rightarrow> scopes | Some sc \<Rightarrow> sc)\<rparr>\<rparr>)"
    unfolding r by (simp add: AuthURL_def Let_def)
  show ?thesis
    using s f u by simp
qed

text \<open>
  The test's Authenticator: a URL with one scope, then an exchange, a client and a token
  source, then a URL without scopes, which still carries the scope.
\<close>

theorem AuthURL_scopes_persist_witness:
  "AuthURL mock_oauth2 ''state456'' []
     (fst (run mock_oauth2
             [CallToken () ''test-state'' test_request, CallClient () (Some test_token),
              CallTokenSource () (Some test_token), CallAuthURL ''state789'' []]
             (snd (AuthURL mock_oauth2 ''state123'' [''user-read-email''] test_auth), 0))) =
     (''https://accounts.spotify.com/authorize?client_id=test-client-id''
        @ ''&redirect_uri=http://localhost/callback''
        @ ''&scope=user-read-email ''
        @ ''&state=state456&access_type=offline'',
      test_auth\<lparr>config := (config test_auth)\<lparr>Scopes := [''user-read-email'']\<rparr>\<rparr>)"
proof -
  have ne: "[''user-read-email''] \<noteq> ([] :: string list)"
    by simp
  have ex: "explicit_scopes
             [CallToken () ''test-state'' test_request, CallClient () (Some test_token),
              CallTokenSource () (Some test_token), CallAuthURL ''state789'' []] = None"
    by simp
  have url: "Config_AuthCodeURL mock_oauth2
       ((config test_auth)\<lparr>Scopes := [''user-read-email'']\<rparr>) ''state456'' [AccessTypeOffline] =
     ''https://accounts.spotify.com/authorize?client_id=test-client-id''
        @ ''&redirect_uri=http://localhost/callback''
        @ ''&scope=user-read-email ''
        @ ''&state=state456&access_type=offline''"
    by (simp add: mock_oauth2_def test_auth_def EndpointAuthURL_def)
  have p: "AuthURL mock_oauth2 ''state456'' []
     (fst (run mock_oauth2
             [CallToken () ''test-state'' test_request, CallClient () (Some test_token),
              CallTokenSource () (Some test_token), CallAuthURL ''state789'' []]
             (snd (AuthURL mock_oauth2 ''state123'' [''user-read-email''] test_auth), 0))) =
     (Config_AuthCodeURL mock_oauth2
        ((config test_auth)\<lparr>Scopes := [''user-read-email'']\<rparr>) ''state456'' [AccessTypeOffline],
      test_auth\<lparr>config := (config test_auth)\<lparr>Scopes := [''user-read-email'']\<rparr>\<rparr>)"
    using ex
      AuthURL_scopes_persist [OF ne, where lib = mock_oauth2 and state = "''state123''"
        and a = test_auth and state' = "''state456''" and w = 0
        and cs = "[CallToken () ''test-state'' test_request, CallClient () (Some test_token),
              CallTokenSource () (Some test_token), CallAuthURL ''state789'' []]"]
    by blast
  show ?thesis
    unfolding p url by (rule refl)
qed

text \<open>
  C5. An Authenticator that \<open>New\<close> returns has a non-empty client identifier and a
  non-empty client secret. After any sequence of calls of \<open>AuthURL\<close>, \<open>Token\<close>, \<open>Client\<close>
  and \<open>TokenSource\<close> it is the same Authenticator except for the scope set of its
  configuration, so identifier and secret are still non-empty; and the scope set is the
  one it had unless some \<open>AuthURL\<close> call passed explicit scopes, in which case it is the
  list of the last such call.
\<close>

theorem New_invariant_preserved:
  assumes "New env redirectURL opts = Inr a"
  shows "ClientID (config a) \<noteq> [] \<and> ClientSecret (config a) \<noteq> [] \<and>
         fst (run lib cs (a, w)) =
           a\<lparr>config := (config a)\<lparr>Scopes := Scopes (config (fst (run lib cs (a, w))))\<rparr>\<rparr> \<and>
         Scopes (config (fst (run lib cs (a, w)))) =
           (case explicit_scopes cs of None \<Rightarrow> Scopes (config a) | Some sc \<Rightarrow> sc) \<and>
         ClientID (config (fst (run lib cs (a, w)))) = ClientID (config a) \<and>
         ClientSecret (config (fst (run lib cs (a, w)))) = ClientSecret (config a) \<and>
         RedirectURL (config (fst (run lib cs (a, w)))) = RedirectURL (config a) \<and>
         Endpoint_AuthURL (config (fst (run lib cs (a, w)))) = Endpoint_AuthURL (config a) \<and>
         Endpoint_TokenURL (config (fst (run lib cs (a, w)))) = Endpoint_TokenURL (config a) \<and>
         client (fst (run lib cs (a, w))) = client a \<and>
         ClientID (config (fst (run lib cs (a, w)))) \<noteq> [] \<and>
         ClientSecret (config (fst (run lib cs (a, w)))) \<noteq> []"
proof -
  have i: "ClientID (config a) \<noteq> []" and s: "ClientSecret (config a) \<noteq> []"
    using New_fields(1,2,3,4) [OF assms] by simp_all
  have r: "fst (run lib cs (a, w)) =
     a\<lparr>config := (config a)\<lparr>Scopes :=
        (case explicit_scopes cs of None \<Rightarrow> Scopes (config a) | Some sc \<Rightarrow> sc)\<rparr>\<rparr>"
    by (rule run_frame)
  show ?thesis
    unfolding r using i s by simp
qed

theorem New_invariant_preserved_witness:
  "New test_env ''http://localhost/callback'' [WithHTTPClient (Some mock_client)]
     = Inr test_auth \<and>
   ClientID (config test_auth) \<noteq> [] \<and> ClientSecret (config test_auth) \<noteq> [] \<and>
   fst (run mock_oauth2
          [CallAuthURL ''state123'' [''user-read-email''],
           CallToken () ''test-state'' test_request, CallClient () (Some test_token),
           CallTokenSource () (Some test_token), CallAuthURL ''state456'' []]
          (test_auth, 0)) =
     test_auth\<lparr>config := (config test_auth)\<lparr>Scopes := [''user-read-email'']\<rparr>\<rparr>"
proof -
  have ex: "explicit_scopes
          [CallAuthURL ''state123'' [''user-read-email''],
           CallToken () ''test-state'' test_request, CallClient () (Some test_token),
           CallTokenSource () (Some test_token), CallAuthURL ''state456'' []]
          = Some [''user-read-email'']"
    by simp
  show ?thesis
    using ex New_test_auth
      New_invariant_preserved [OF New_test_auth, where lib = mock_oauth2 and w = 0
        and cs = "[CallAuthURL ''state123'' [''user-read-email''],
           CallToken () ''test-state'' test_request, CallClient () (Some test_token),
           CallTokenSource () (Some test_token), CallAuthURL ''state456'' []]"]
    by simp
qed

end
